theory Spec2Isabelle
  imports Main "HOL-Library.AList"
begin

section \<open>The visualization facade of ParaMonte's Python interface\<close>

text \<open>
  The module \<^verbatim>\<open>src/interface/Python/paramonte/_visualization.py\<close> consists of nine
  statements of the form \<^verbatim>\<open>from M import N\<close> and nothing else. This theory embeds the
  module body, together with the part of Python's import protocol that these statements
  exercise, and proves the properties the specification states about the module.
\<close>

subsection \<open>Names, objects, namespaces and exceptions\<close>

type_synonym name = string

text \<open>An object is represented by its identity, the number Python's \<^verbatim>\<open>id\<close> returns.\<close>

type_synonym ref = nat

text \<open>
  A namespace is a Python dictionary from names to objects. Dictionaries keep the order
  of insertion, and rebinding a key keeps its position: an association list updated with
  \<^const>\<open>AList.update\<close>.
\<close>

type_synonym namespace = "(name \<times> ref) list"

text \<open>\<^verbatim>\<open>sys.modules\<close>: the modules loaded so far, each with its namespace.\<close>

type_synonym modules = "(name \<times> namespace) list"

text \<open>
  The exceptions an import statement can raise: the import system's own
  \<^verbatim>\<open>ModuleNotFoundError\<close> (no module of that name) and \<^verbatim>\<open>ImportError\<close>
  (cannot import name N from M), and any exception raised by the body of a module
  while it is being loaded.
\<close>

datatype exn =
    ModuleNotFoundError name
  | ImportError name name
  | CollaboratorError string

text \<open>
  The collaborator modules are not part of the sources at hand, so they are parameters:
  the finder maps a module name to the effect of executing that module's body, which
  either raises or yields the module's namespace, and may change the rest of the world
  (type \<open>'w\<close>) on the way. \<open>None\<close> means that no such module can be located.
  A body stands for everything that loading the collaborator does, the imports it performs
  itself included; what it does to the module table is not modelled, so the table changes
  only through the imports of the facade. The collaborators are plain modules, not
  packages: an attribute that is missing is not looked up as a submodule.
\<close>

type_synonym 'w module_body = "'w \<Rightarrow> (exn + namespace) \<times> 'w"

type_synonym 'w finder = "name \<Rightarrow> 'w module_body option"

text \<open>
  The interpreter state while the facade's body runs: the module table, the global
  namespace of the module being executed, and everything else.
\<close>

record 'w interp =
  sys_modules :: modules
  globals :: namespace
  world :: 'w

subsection \<open>The import statement\<close>

text \<open>
  Importing module \<open>m\<close>: a module already in \<^verbatim>\<open>sys.modules\<close> is returned as it is,
  without running its body again; otherwise the module is located, its body is executed,
  and on success the module is entered into \<^verbatim>\<open>sys.modules\<close>.
\<close>

definition import_module :: "'w finder \<Rightarrow> name \<Rightarrow> 'w interp \<Rightarrow> (exn + namespace) \<times> 'w interp" where
  "import_module F m st =
     (case map_of (sys_modules st) m of
        Some ns \<Rightarrow> (Inr ns, st)
      | None \<Rightarrow>
          (case F m of
             None \<Rightarrow> (Inl (ModuleNotFoundError m), st)
           | Some body \<Rightarrow>
               (case body (world st) of
                  (Inl e, w') \<Rightarrow> (Inl e, st\<lparr>world := w'\<rparr>)
                | (Inr ns, w') \<Rightarrow>
                    (Inr ns, st\<lparr>sys_modules := sys_modules st @ [(m, ns)], world := w'\<rparr>))))"

text \<open>
  \<^verbatim>\<open>from m import n\<close>: import \<open>m\<close>, read its attribute \<open>n\<close>, and bind \<open>n\<close> in the
  global namespace to the object found. The first component of the result is the
  exception raised, if any.
\<close>

definition from_import :: "'w finder \<Rightarrow> name \<Rightarrow> name \<Rightarrow> 'w interp \<Rightarrow> exn option \<times> 'w interp" where
  "from_import F m n st =
     (case import_module F m st of
        (Inl e, st') \<Rightarrow> (Some e, st')
      | (Inr ns, st') \<Rightarrow>
          (case map_of ns n of
             None \<Rightarrow> (Some (ImportError n m), st')
           | Some obj \<Rightarrow> (None, st'\<lparr>globals := AList.update n obj (globals st')\<rparr>)))"

subsection \<open>The module body\<close>

datatype stmt = FromImport (module: name) (imported: name)

text \<open>Lines 25 to 33 of \<^verbatim>\<open>_visualization.py\<close>, in textual order.\<close>

definition visualization_body :: "stmt list" where
  "visualization_body =
     [FromImport ''_visutils'' ''ParaMonteFigure'',
      FromImport ''_visutils'' ''Target'',
      FromImport ''_HistPlot'' ''HistPlot'',
      FromImport ''_GridPlot'' ''GridPlot'',
      FromImport ''_LinePlot'' ''LinePlot'',
      FromImport ''_ScatterPlot'' ''ScatterPlot'',
      FromImport ''_HeatMapPlot'' ''HeatMapPlot'',
      FromImport ''_DensityMapPlot'' ''DensityMapPlot'',
      FromImport ''_ScatterLinePlot'' ''ScatterLinePlot'']"

text \<open>
  Statements run one after the other; an exception ends the run at the statement that
  raised it, since the body has no handler.
\<close>

fun exec_stmts :: "'w finder \<Rightarrow> stmt list \<Rightarrow> 'w interp \<Rightarrow> exn option \<times> 'w interp" where
  "exec_stmts F [] st = (None, st)"
| "exec_stmts F (s # ss) st =
     (case from_import F (module s) (imported s) st of
        (Some e, st') \<Rightarrow> (Some e, st')
      | (None, st') \<Rightarrow> exec_stmts F ss st')"

text \<open>
  Loading the facade is what the import system does for a module that is not in
  \<^verbatim>\<open>sys.modules\<close>: the body runs in a fresh, empty global namespace. When the body
  raises, the exception goes to the importer and the module is removed from
  \<^verbatim>\<open>sys.modules\<close>; when it completes, the importer gets the namespace and the module
  stays in \<^verbatim>\<open>sys.modules\<close> under its name. While the body runs, CPython keeps the
  module under construction in \<^verbatim>\<open>sys.modules\<close>; no statement of the body reads
  that entry and the collaborator bodies of this model do not read the module table, so
  the entry is left out, and the table is given as it stands after the load.
\<close>

definition load_visualization ::
    "'w finder \<Rightarrow> modules \<Rightarrow> 'w \<Rightarrow> (exn + namespace) \<times> modules \<times> 'w" where
  "load_visualization F sm w =
     (case exec_stmts F visualization_body \<lparr>sys_modules = sm, globals = [], world = w\<rparr> of
        (Some e, st) \<Rightarrow> (Inl e, AList.delete ''_visualization'' (sys_modules st), world st)
      | (None, st) \<Rightarrow>
          (Inr (globals st),
           AList.delete ''_visualization'' (sys_modules st) @ [(''_visualization'', globals st)],
           world st))"

text \<open>
  \<^verbatim>\<open>import _visualization\<close>, as a consumer of the facade writes it: a module that is in
  \<^verbatim>\<open>sys.modules\<close> already is returned as it is and nothing runs; otherwise the facade
  is loaded.
\<close>

definition import_visualization ::
    "'w finder \<Rightarrow> modules \<Rightarrow> 'w \<Rightarrow> (exn + namespace) \<times> modules \<times> 'w" where
  "import_visualization F sm w =
     (case map_of sm ''_visualization'' of
        Some ns \<Rightarrow> (Inr ns, sm, w)
      | None \<Rightarrow> load_visualization F sm w)"

text \<open>What \<^verbatim>\<open>from m import n\<close> finds in a module table: attribute \<open>n\<close> of module \<open>m\<close>.\<close>

definition resolve :: "modules \<Rightarrow> stmt \<Rightarrow> ref option" where
  "resolve sm s =
     (case map_of sm (module s) of
        None \<Rightarrow> None
      | Some ns \<Rightarrow> map_of ns (imported s))"

text \<open>
  The specification's single error class, "collaborator unavailable", for the collaborator
  that statement \<open>s\<close> names, in state \<open>st\<close>: its module is neither loaded nor can be
  located, or its module raises while it is loaded, or its module does not provide the
  name. The value is the exception that this condition raises, \<open>None\<close> when the
  collaborator is available.
\<close>

definition collaborator_error :: "'w finder \<Rightarrow> 'w interp \<Rightarrow> stmt \<Rightarrow> exn option" where
  "collaborator_error F st s =
     (let missing_name = (\<lambda>ns. if map_of ns (imported s) = None
                                then Some (ImportError (imported s) (module s)) else None)
      in case map_of (sys_modules st) (module s) of
           Some ns \<Rightarrow> missing_name ns
         | None \<Rightarrow>
             (case F (module s) of
                None \<Rightarrow> Some (ModuleNotFoundError (module s))
              | Some body \<Rightarrow>
                  (case fst (body (world st)) of
                     Inl e \<Rightarrow> Some e
                   | Inr ns \<Rightarrow> missing_name ns)))"

subsection \<open>A concrete installation\<close>

text \<open>
  Sample collaborator modules, used to run the model: each module's namespace holds the
  class the facade imports from it, next to other names of the module's own. The world
  is the log of the module bodies executed so far.
\<close>

definition demo_sources :: modules where
  "demo_sources =
     [(''_visutils'', [(''np'', 20), (''ParaMonteFigure'', 1), (''Target'', 2)]),
      (''_HistPlot'', [(''Target'', 2), (''HistPlot'', 3)]),
      (''_GridPlot'', [(''GridPlot'', 4)]),
      (''_LinePlot'', [(''LinePlot'', 5)]),
      (''_ScatterPlot'', [(''ScatterPlot'', 6), (''HistPlot'', 21)]),
      (''_HeatMapPlot'', [(''HeatMapPlot'', 7)]),
      (''_DensityMapPlot'', [(''DensityMapPlot'', 8)]),
      (''_ScatterLinePlot'', [(''ScatterLinePlot'', 9)])]"

definition demo_finder :: "modules \<Rightarrow> name list finder" where
  "demo_finder src m =
     (case map_of src m of
        None \<Rightarrow> None
      | Some ns \<Rightarrow> Some (\<lambda>log. (Inr ns, log @ [m])))"

definition demo_namespace :: namespace where
  "demo_namespace =
     [(''ParaMonteFigure'', 1), (''Target'', 2), (''HistPlot'', 3), (''GridPlot'', 4),
      (''LinePlot'', 5), (''ScatterPlot'', 6), (''HeatMapPlot'', 7),
      (''DensityMapPlot'', 8), (''ScatterLinePlot'', 9)]"

text \<open>The log after a complete load from an empty module table.\<close>

definition demo_log :: "name list" where
  "demo_log =
     [''_visutils'', ''_HistPlot'', ''_GridPlot'', ''_LinePlot'', ''_ScatterPlot'',
      ''_HeatMapPlot'', ''_DensityMapPlot'', ''_ScatterLinePlot'']"

text \<open>The same installation with the histogram module removed.\<close>

definition demo_sources_no_hist :: modules where
  "demo_sources_no_hist = AList.delete ''_HistPlot'' demo_sources"

text \<open>The interpreter state once both imports from \<^verbatim>\<open>_visutils\<close> have run.\<close>

definition demo_state_after_visutils :: "name list interp" where
  "demo_state_after_visutils =
     \<lparr>sys_modules = [(''_visutils'', [(''np'', 20), (''ParaMonteFigure'', 1), (''Target'', 2)])],
      globals = [(''ParaMonteFigure'', 1), (''Target'', 2)],
      world = [''_visutils'']\<rparr>"

text \<open>A module table in which \<^verbatim>\<open>_visutils\<close> is loaded already.\<close>

definition demo_preloaded :: modules where
  "demo_preloaded = [(''_visutils'', [(''np'', 20), (''ParaMonteFigure'', 1), (''Target'', 2)])]"

section \<open>Properties of the import statement and of the module body\<close>

lemma import_module_globals:
  "import_module F m st = (r, st') \<Longrightarrow> globals st' = globals st"
  by (auto simp: import_module_def split: option.splits sum.splits prod.splits)

lemma import_module_keeps:
  "import_module F m st = (r, st') \<Longrightarrow> map_of (sys_modules st) k = Some x \<Longrightarrow>
   map_of (sys_modules st') k = Some x"
  by (auto simp: import_module_def split: option.splits sum.splits prod.splits)

lemma import_module_found:
  "import_module F m st = (Inr ns, st') \<Longrightarrow> map_of (sys_modules st') m = Some ns"
  by (auto simp: import_module_def map_add_def split: option.splits sum.splits prod.splits)

lemma import_module_keys:
  "import_module F m st = (r, st') \<Longrightarrow>
   fst ` set (sys_modules st') \<subseteq> insert m (fst ` set (sys_modules st))"
  by (auto simp: import_module_def split: option.splits sum.splits prod.splits)

lemma from_import_cases:
  assumes "from_import F m n st = (r, st')"
  obtains
    (load_failed) e where "import_module F m st = (Inl e, st')" "r = Some e"
  | (no_attribute) ns where "import_module F m st = (Inr ns, st')" "map_of ns n = None"
      "r = Some (ImportError n m)"
  | (bound) ns obj st1 where "import_module F m st = (Inr ns, st1)" "map_of ns n = Some obj"
      "r = None" "st' = st1\<lparr>globals := AList.update n obj (globals st1)\<rparr>"
  using assms
  by (auto simp: from_import_def split: option.splits sum.splits prod.splits)

lemma from_import_keeps:
  assumes "from_import F m n st = (r, st')" and "map_of (sys_modules st) k = Some x"
  shows "map_of (sys_modules st') k = Some x"
  using assms(1)
  by (cases rule: from_import_cases) (auto dest: import_module_keeps [OF _ assms(2)])

lemma from_import_keys:
  assumes "from_import F m n st = (r, st')"
  shows "fst ` set (sys_modules st') \<subseteq> insert m (fst ` set (sys_modules st))"
  using assms
proof (cases rule: from_import_cases)
  case (bound ns obj st1)
  from import_module_keys [OF bound(1)] bound(4) show ?thesis by simp
qed (auto dest: import_module_keys)

lemma from_import_other_names:
  assumes "from_import F m n st = (r, st')" and "k \<noteq> n"
  shows "map_of (globals st') k = map_of (globals st) k"
  using assms(1)
proof (cases rule: from_import_cases)
  case (bound ns obj st1)
  from import_module_globals [OF bound(1)] bound(4) assms(2) show ?thesis
    by (simp add: update_conv')
qed (auto dest: import_module_globals)

lemma from_import_bound:
  assumes "from_import F m n st = (None, st')"
  shows "\<exists>obj. resolve (sys_modules st') (FromImport m n) = Some obj \<and>
     globals st' = AList.update n obj (globals st)"
  using assms
proof (cases rule: from_import_cases)
  case (bound ns obj st1)
  from import_module_found [OF bound(1)] bound(2,4)
  have "resolve (sys_modules st') (FromImport m n) = Some obj"
    by (simp add: resolve_def)
  moreover from import_module_globals [OF bound(1)] bound(4)
  have "globals st' = AList.update n obj (globals st)" by simp
  ultimately show ?thesis by blast
qed simp_all

lemma exec_stmts_append:
  "exec_stmts F (xs @ ys) st =
     (case exec_stmts F xs st of
        (Some e, st') \<Rightarrow> (Some e, st')
      | (None, st') \<Rightarrow> exec_stmts F ys st')"
  by (induction xs arbitrary: st) (auto split: option.splits prod.splits)

lemma exec_stmts_keeps:
  "exec_stmts F ss st = (r, st') \<Longrightarrow> map_of (sys_modules st) k = Some x \<Longrightarrow>
   map_of (sys_modules st') k = Some x"
  by (induction ss arbitrary: st)
     (auto split: option.splits prod.splits dest: from_import_keeps)

lemma exec_stmts_keys:
  "exec_stmts F ss st = (r, st') \<Longrightarrow>
   fst ` set (sys_modules st') \<subseteq> fst ` set (sys_modules st) \<union> module ` set ss"
proof (induction ss arbitrary: st)
  case Nil
  then show ?case by simp
next
  case (Cons s ss)
  obtain r1 st1 where h: "from_import F (module s) (imported s) st = (r1, st1)"
    by (cases "from_import F (module s) (imported s) st")
  from from_import_keys [OF h]
  have k1: "fst ` set (sys_modules st1) \<subseteq> insert (module s) (fst ` set (sys_modules st))" .
  show ?case
  proof (cases r1)
    case None
    with Cons.prems h have "exec_stmts F ss st1 = (r, st')" by simp
    from Cons.IH [OF this] k1 show ?thesis by auto
  next
    case (Some e)
    with Cons.prems h have "st' = st1" by simp
    with k1 show ?thesis by auto
  qed
qed

lemma exec_stmts_other_names:
  "exec_stmts F ss st = (r, st') \<Longrightarrow> k \<notin> imported ` set ss \<Longrightarrow>
   map_of (globals st') k = map_of (globals st) k"
proof (induction ss arbitrary: st)
  case Nil
  then show ?case by simp
next
  case (Cons s ss)
  obtain r1 st1 where h: "from_import F (module s) (imported s) st = (r1, st1)"
    by (cases "from_import F (module s) (imported s) st")
  from Cons.prems(2) have ne: "k \<noteq> imported s" and rest: "k \<notin> imported ` set ss" by auto
  from from_import_other_names [OF h ne]
  have g1: "map_of (globals st1) k = map_of (globals st) k" .
  show ?case
  proof (cases r1)
    case None
    with Cons.prems h have "exec_stmts F ss st1 = (r, st')" by simp
    from Cons.IH [OF this rest] g1 show ?thesis by simp
  next
    case (Some e)
    with Cons.prems h have "st' = st1" by simp
    with g1 show ?thesis by simp
  qed
qed

lemma import_module_world:
  assumes "import_module F m st = (r, st')"
    and "reflp R"
    and "\<And>b w. F m = Some b \<Longrightarrow> R w (snd (b w))"
  shows "R (world st) (world st')"
proof (cases "map_of (sys_modules st) m")
  case (Some ns)
  with assms(1) have "st' = st" by (simp add: import_module_def)
  with assms(2) show ?thesis by (simp add: reflpD)
next
  case None
  show ?thesis
  proof (cases "F m")
    case None
    with \<open>map_of (sys_modules st) m = None\<close> assms(1) have "st' = st"
      by (simp add: import_module_def)
    with assms(2) show ?thesis by (simp add: reflpD)
  next
    case (Some b)
    with \<open>map_of (sys_modules st) m = None\<close> assms(1)
    have "world st' = snd (b (world st))"
      by (auto simp: import_module_def split: prod.splits sum.splits)
    with assms(3) [OF Some] show ?thesis by simp
  qed
qed

lemma from_import_world:
  assumes "from_import F m n st = (r, st')"
    and "reflp R"
    and "\<And>b w. F m = Some b \<Longrightarrow> R w (snd (b w))"
  shows "R (world st) (world st')"
  using assms(1)
proof (cases rule: from_import_cases)
  case (load_failed e)
  show ?thesis using load_failed(1) assms(2,3) by (rule import_module_world)
next
  case (no_attribute ns)
  show ?thesis using no_attribute(1) assms(2,3) by (rule import_module_world)
next
  case (bound ns obj st1)
  have "R (world st) (world st1)"
    using bound(1) assms(2,3) by (rule import_module_world)
  with bound(4) show ?thesis by simp
qed

lemma exec_stmts_world:
  assumes "exec_stmts F ss st = (r, st')"
    and "reflp R" and "transp R"
    and "\<And>s b w. s \<in> set ss \<Longrightarrow> F (module s) = Some b \<Longrightarrow> R w (snd (b w))"
  shows "R (world st) (world st')"
  using assms(1,4)
proof (induction ss arbitrary: st)
  case Nil
  with assms(2) show ?case by (simp add: reflpD)
next
  case (Cons s ss)
  obtain r1 st1 where h: "from_import F (module s) (imported s) st = (r1, st1)"
    by (cases "from_import F (module s) (imported s) st")
  have w1: "R (world st) (world st1)"
    using h assms(2)
  proof (rule from_import_world)
    fix b w assume "F (module s) = Some b"
    then show "R w (snd (b w))" by (rule Cons.prems(2) [rotated]) simp
  qed
  show ?case
  proof (cases r1)
    case None
    with Cons.prems(1) h have "exec_stmts F ss st1 = (r, st')" by simp
    then have "R (world st1) (world st')"
    proof (rule Cons.IH)
      fix s' b w assume "s' \<in> set ss" "F (module s') = Some b"
      then show "R w (snd (b w))" by (intro Cons.prems(2) [of s']) simp_all
    qed
    with w1 assms(3) show ?thesis by (blast dest: transpD)
  next
    case (Some e)
    with Cons.prems(1) h have "st' = st1" by simp
    with w1 show ?thesis by simp
  qed
qed

lemma exec_stmts_resolved:
  assumes "exec_stmts F ss st = (None, st')" and "s \<in> set ss"
  shows "\<exists>obj. resolve (sys_modules st') s = Some obj"
  using assms
proof (induction ss arbitrary: st)
  case Nil
  then show ?case by simp
next
  case (Cons a ss)
  obtain r1 st1 where h: "from_import F (module a) (imported a) st = (r1, st1)"
    by (cases "from_import F (module a) (imported a) st")
  with Cons.prems(1) have r1: "r1 = None" and rest: "exec_stmts F ss st1 = (None, st')"
    by (auto split: option.splits)
  show ?case
  proof (cases "s = a")
    case True
    from from_import_bound [OF h [unfolded r1]]
    obtain obj where o: "resolve (sys_modules st1) (FromImport (module a) (imported a)) = Some obj"
      by blast
    then obtain ns where "map_of (sys_modules st1) (module a) = Some ns" "map_of ns (imported a) = Some obj"
      by (auto simp: resolve_def split: option.splits)
    with exec_stmts_keeps [OF rest] True show ?thesis
      by (auto simp: resolve_def)
  next
    case False
    with Cons.prems(2) have "s \<in> set ss" by simp
    from Cons.IH [OF rest this] show ?thesis .
  qed
qed

lemma update_fresh: "k \<notin> fst ` set al \<Longrightarrow> AList.update k v al = al @ [(k, v)]"
  by (induction al) auto

lemma exec_stmts_globals:
  assumes "exec_stmts F ss st = (None, st')"
    and "distinct (map fst (globals st) @ map imported ss)"
  shows "globals st' = globals st @ map (\<lambda>s. (imported s, the (resolve (sys_modules st') s))) ss"
  using assms
proof (induction ss arbitrary: st)
  case Nil
  then show ?case by simp
next
  case (Cons a ss)
  obtain r1 st1 where h: "from_import F (module a) (imported a) st = (r1, st1)"
    by (cases "from_import F (module a) (imported a) st")
  with Cons.prems(1) have r1: "r1 = None" and rest: "exec_stmts F ss st1 = (None, st')"
    by (auto split: option.splits)
  from from_import_bound [OF h [unfolded r1]]
  obtain obj where o: "resolve (sys_modules st1) (FromImport (module a) (imported a)) = Some obj"
    and g: "globals st1 = AList.update (imported a) obj (globals st)"
    by blast
  from Cons.prems(2) have fresh: "imported a \<notin> fst ` set (globals st)" by auto
  from g fresh have g1: "globals st1 = globals st @ [(imported a, obj)]"
    by (simp add: update_fresh)
  from o obtain ns where "map_of (sys_modules st1) (module a) = Some ns"
      "map_of ns (imported a) = Some obj"
    by (auto simp: resolve_def split: option.splits)
  with exec_stmts_keeps [OF rest] have fin: "resolve (sys_modules st') a = Some obj"
    by (auto simp: resolve_def)
  from Cons.prems(2) g1 have "distinct (map fst (globals st1) @ map imported ss)"
    by auto
  from Cons.IH [OF rest this] g1 fin show ?case by simp
qed

lemma demo_exec:
  "exec_stmts (demo_finder demo_sources) visualization_body
     \<lparr>sys_modules = [], globals = [], world = []\<rparr> =
   (None, \<lparr>sys_modules = demo_sources, globals = demo_namespace, world = demo_log\<rparr>)"
  by (simp add: visualization_body_def from_import_def import_module_def demo_finder_def
      demo_sources_def demo_namespace_def demo_log_def)

lemma demo_load:
  "load_visualization (demo_finder demo_sources) [] [] =
   (Inr demo_namespace, demo_sources @ [(''_visualization'', demo_namespace)], demo_log)"
  by (simp add: load_visualization_def demo_exec) (simp add: demo_sources_def)

lemma demo_load_no_hist:
  "load_visualization (demo_finder demo_sources_no_hist) [] [] =
   (Inl (ModuleNotFoundError ''_HistPlot''),
    [(''_visutils'', [(''np'', 20), (''ParaMonteFigure'', 1), (''Target'', 2)])], [''_visutils''])"
  by (simp add: load_visualization_def visualization_body_def from_import_def import_module_def
      demo_finder_def demo_sources_no_hist_def demo_sources_def)

lemma import_module_missing:
  "import_module F m st = (r, st') \<Longrightarrow> F k = None \<Longrightarrow> map_of (sys_modules st) k = None \<Longrightarrow>
   map_of (sys_modules st') k = None"
  by (auto simp: import_module_def split: option.splits sum.splits prod.splits)

lemma from_import_missing:
  assumes "from_import F m n st = (r, st')" and "F k = None"
    and "map_of (sys_modules st) k = None"
  shows "map_of (sys_modules st') k = None"
  using assms(1)
proof (cases rule: from_import_cases)
  case (load_failed e)
  show ?thesis using load_failed(1) assms(2,3) by (rule import_module_missing)
next
  case (no_attribute ns)
  show ?thesis using no_attribute(1) assms(2,3) by (rule import_module_missing)
next
  case (bound ns obj st1)
  have "map_of (sys_modules st1) k = None"
    using bound(1) assms(2,3) by (rule import_module_missing)
  with bound(4) show ?thesis by simp
qed

lemma from_import_missing_fails:
  assumes "F m = None" and "map_of (sys_modules st) m = None"
  shows "from_import F m n st = (Some (ModuleNotFoundError m), st)"
  using assms by (simp add: from_import_def import_module_def)

lemma exec_stmts_missing_fails:
  assumes "s \<in> set ss" and "F (module s) = None"
    and "map_of (sys_modules st) (module s) = None"
  shows "\<exists>e st'. exec_stmts F ss st = (Some e, st')"
  using assms(1,3)
proof (induction ss arbitrary: st)
  case Nil
  then show ?case by simp
next
  case (Cons a ss)
  obtain r1 st1 where h: "from_import F (module a) (imported a) st = (r1, st1)"
    by (cases "from_import F (module a) (imported a) st")
  show ?case
  proof (cases r1)
    case (Some e)
    with h show ?thesis by simp
  next
    case None
    have "s \<noteq> a"
    proof
      assume "s = a"
      with assms(2) Cons.prems(2)
      have "from_import F (module a) (imported a) st = (Some (ModuleNotFoundError (module a)), st)"
        by (simp add: from_import_missing_fails)
      with h None show False by simp
    qed
    with Cons.prems(1) have "s \<in> set ss" by simp
    moreover have "map_of (sys_modules st1) (module s) = None"
      using h assms(2) Cons.prems(2) by (rule from_import_missing)
    ultimately have "\<exists>e st'. exec_stmts F ss st1 = (Some e, st')" by (rule Cons.IH)
    with h None show ?thesis by simp
  qed
qed

lemma from_import_error:
  "fst (from_import F m n st) = collaborator_error F st (FromImport m n)"
  by (auto simp: from_import_def import_module_def collaborator_error_def
      split: option.splits sum.splits prod.splits)

lemma exec_stmts_failure:
  assumes "exec_stmts F ss st = (Some e, st')"
  shows "\<exists>pre s post st1. ss = pre @ s # post \<and> exec_stmts F pre st = (None, st1) \<and>
     from_import F (module s) (imported s) st1 = (Some e, st')"
  using assms
proof (induction ss arbitrary: st)
  case Nil
  then show ?case by simp
next
  case (Cons a ss)
  obtain r1 st1 where h: "from_import F (module a) (imported a) st = (r1, st1)"
    by (cases "from_import F (module a) (imported a) st")
  show ?case
  proof (cases r1)
    case (Some e1)
    with Cons.prems h have "e1 = e" "st1 = st'" by simp_all
    with h Some have "a # ss = [] @ a # ss \<and> exec_stmts F [] st = (None, st) \<and>
        from_import F (module a) (imported a) st = (Some e, st')"
      by simp
    then show ?thesis by blast
  next
    case None
    with Cons.prems h have "exec_stmts F ss st1 = (Some e, st')" by simp
    from Cons.IH [OF this] obtain pre s post st2 where
      d: "ss = pre @ s # post" "exec_stmts F pre st1 = (None, st2)"
         "from_import F (module s) (imported s) st2 = (Some e, st')"
      by blast
    from d(1) have "a # ss = (a # pre) @ s # post" by simp
    moreover from d(2) h None have "exec_stmts F (a # pre) st = (None, st2)" by simp
    ultimately show ?thesis using d(3) by blast
  qed
qed

lemma exec_stmts_stops:
  assumes "exec_stmts F pre st = (None, st1)"
    and "from_import F (module s) (imported s) st1 = (Some e, st2)"
  shows "exec_stmts F (pre @ s # post) st = (Some e, st2)"
  using assms by (simp add: exec_stmts_append)

lemma map_of_registered:
  "k \<noteq> f \<Longrightarrow> map_of (AList.delete f al @ [(f, g)]) k = map_of al k"
  by (simp add: map_add_def delete_conv' split: option.splits)

lemma resolve_registered:
  "module s \<noteq> f \<Longrightarrow> resolve (AList.delete f al @ [(f, g)]) s = resolve al s"
  by (simp add: resolve_def map_add_def delete_conv' split: option.splits)

lemma map_of_unregistered:
  "k \<noteq> f \<Longrightarrow> map_of (AList.delete f al) k = map_of al k"
  by (simp add: delete_conv')

lemma body_modules:
  "module ` set visualization_body =
     {''_visutils'', ''_HistPlot'', ''_GridPlot'', ''_LinePlot'', ''_ScatterPlot'',
      ''_HeatMapPlot'', ''_DensityMapPlot'', ''_ScatterLinePlot''}"
  by (auto simp: visualization_body_def)

lemma body_names:
  "map imported visualization_body =
     [''ParaMonteFigure'', ''Target'', ''HistPlot'', ''GridPlot'', ''LinePlot'',
      ''ScatterPlot'', ''HeatMapPlot'', ''DensityMapPlot'', ''ScatterLinePlot'']"
  by (simp add: visualization_body_def)

lemma body_names_distinct: "distinct (map imported visualization_body)"
  by (simp add: body_names)

lemma facade_not_collaborator: "s \<in> set visualization_body \<Longrightarrow> module s \<noteq> ''_visualization''"
  by (auto simp: visualization_body_def)

text \<open>Inversion of a load.\<close>

lemma load_success:
  assumes "load_visualization F sm w = (Inr ns, sm', w')"
  obtains st where
    "exec_stmts F visualization_body \<lparr>sys_modules = sm, globals = [], world = w\<rparr> = (None, st)"
    "ns = globals st"
    "sm' = AList.delete ''_visualization'' (sys_modules st) @ [(''_visualization'', globals st)]"
    "w' = world st"
  using assms
  by (auto simp: load_visualization_def split: prod.splits option.splits)

lemma load_failure:
  assumes "load_visualization F sm w = (Inl e, sm', w')"
  obtains st where
    "exec_stmts F visualization_body \<lparr>sys_modules = sm, globals = [], world = w\<rparr> = (Some e, st)"
    "sm' = AList.delete ''_visualization'' (sys_modules st)"
    "w' = world st"
  using assms
  by (auto simp: load_visualization_def split: prod.splits option.splits)

lemma load_namespace:
  assumes "load_visualization F sm w = (Inr ns, sm', w')"
  shows "ns = map (\<lambda>s. (imported s, the (resolve sm' s))) visualization_body"
proof -
  from assms obtain st where
    ex: "exec_stmts F visualization_body \<lparr>sys_modules = sm, globals = [], world = w\<rparr> = (None, st)"
    and ns: "ns = globals st"
    and sm': "sm' = AList.delete ''_visualization'' (sys_modules st) @ [(''_visualization'', globals st)]"
    by (rule load_success)
  have "globals st = globals \<lparr>sys_modules = sm, globals = [], world = w\<rparr> @
      map (\<lambda>s. (imported s, the (resolve (sys_modules st) s))) visualization_body"
    using ex by (rule exec_stmts_globals) (simp add: body_names_distinct)
  moreover have "resolve sm' s = resolve (sys_modules st) s" if "s \<in> set visualization_body" for s
    using facade_not_collaborator [OF that] by (simp add: sm' resolve_registered)
  ultimately show ?thesis using ns by simp
qed

lemma load_resolved:
  assumes "load_visualization F sm w = (Inr ns, sm', w')" and "s \<in> set visualization_body"
  shows "\<exists>obj. resolve sm' s = Some obj"
proof -
  from assms(1) obtain st where
    ex: "exec_stmts F visualization_body \<lparr>sys_modules = sm, globals = [], world = w\<rparr> = (None, st)"
    and sm': "sm' = AList.delete ''_visualization'' (sys_modules st) @ [(''_visualization'', globals st)]"
    by (rule load_success)
  from exec_stmts_resolved [OF ex assms(2)] obtain obj where "resolve (sys_modules st) s = Some obj"
    by blast
  with facade_not_collaborator [OF assms(2)] show ?thesis
    by (simp add: sm' resolve_registered)
qed


lemma map_of_tabulate:
  "distinct (map f xs) \<Longrightarrow> s \<in> set xs \<Longrightarrow> map_of (map (\<lambda>x. (f x, g x)) xs) (f s) = Some (g s)"
  by (induction xs) (auto simp: rev_image_eqI)

lemma load_names:
  assumes "load_visualization F sm w = (Inr ns, sm', w')"
  shows "map fst ns = map imported visualization_body"
  by (simp add: load_namespace [OF assms] comp_def)

lemma load_binding:
  assumes "load_visualization F sm w = (Inr ns, sm', w')" and "s \<in> set visualization_body"
  shows "map_of ns (imported s) = resolve sm' s"
proof -
  from load_resolved [OF assms] obtain obj where r: "resolve sm' s = Some obj" by blast
  have "map_of (map (\<lambda>x. (imported x, the (resolve sm' x))) visualization_body) (imported s) =
      Some (the (resolve sm' s))"
    using body_names_distinct assms(2) by (rule map_of_tabulate)
  with load_namespace [OF assms(1)] r show ?thesis by simp
qed

lemma load_keeps:
  assumes "load_visualization F sm w = (r, sm', w')" and "k \<noteq> ''_visualization''"
    and "map_of sm k = Some x"
  shows "map_of sm' k = Some x"
proof -
  obtain r0 st where
    ex: "exec_stmts F visualization_body \<lparr>sys_modules = sm, globals = [], world = w\<rparr> = (r0, st)"
    by (cases "exec_stmts F visualization_body \<lparr>sys_modules = sm, globals = [], world = w\<rparr>")
  from exec_stmts_keeps [OF ex, of k x] assms(3) have "map_of (sys_modules st) k = Some x"
    by simp
  with assms(1,2) ex show ?thesis
    by (cases r0) (auto simp: load_visualization_def map_of_registered map_of_unregistered
        simp del: map_of_append)
qed

lemma exec_stmts_missing:
  assumes "exec_stmts F ss st = (r, st')" and "F k = None"
    and "map_of (sys_modules st) k = None"
  shows "map_of (sys_modules st') k = None"
  using assms(1,3)
proof (induction ss arbitrary: st)
  case Nil
  then show ?case by simp
next
  case (Cons a ss)
  obtain r1 st1 where h: "from_import F (module a) (imported a) st = (r1, st1)"
    by (cases "from_import F (module a) (imported a) st")
  have k1: "map_of (sys_modules st1) k = None"
    using h assms(2) Cons.prems(2) by (rule from_import_missing)
  show ?case
  proof (cases r1)
    case (Some e)
    with Cons.prems(1) h have "st' = st1" by simp
    with k1 show ?thesis by simp
  next
    case None
    with Cons.prems(1) h have "exec_stmts F ss st1 = (r, st')" by simp
    then show ?thesis using k1 by (rule Cons.IH)
  qed
qed

lemma map_of_delete_None: "map_of al k = None \<Longrightarrow> map_of (AList.delete f al) k = None"
  by (simp add: delete_conv')

lemma map_of_delete_same: "map_of (AList.delete f al) f = None"
  by (simp add: delete_conv')

text \<open>A missing collaborator makes the load fail, and stays missing.\<close>

lemma load_missing_fails:
  assumes "s \<in> set visualization_body" and "F (module s) = None"
    and "map_of sm (module s) = None"
  shows "\<exists>e sm' w'. load_visualization F sm w = (Inl e, sm', w') \<and>
    map_of sm' ''_visualization'' = None \<and> map_of sm' (module s) = None"
proof -
  let ?st0 = "\<lparr>sys_modules = sm, globals = [], world = w\<rparr>"
  from assms(3) have m0: "map_of (sys_modules ?st0) (module s) = None" by simp
  from exec_stmts_missing_fails [where F = F and s = s, OF assms(1,2) m0]
  obtain e st where ex: "exec_stmts F visualization_body ?st0 = (Some e, st)" by auto
  have "map_of (sys_modules st) (module s) = None"
    using ex assms(2) m0 by (rule exec_stmts_missing)
  then have 3: "map_of (AList.delete ''_visualization'' (sys_modules st)) (module s) = None"
    by (rule map_of_delete_None)
  from ex have 1: "load_visualization F sm w =
      (Inl e, AList.delete ''_visualization'' (sys_modules st), world st)"
    by (simp add: load_visualization_def)
  show ?thesis by (intro exI conjI) (rule 1, rule map_of_delete_same, rule 3)
qed

lemma import_visualization_load:
  "map_of sm ''_visualization'' = None \<Longrightarrow>
   import_visualization F sm w = load_visualization F sm w"
  by (simp add: import_visualization_def)

lemma import_visualization_cached:
  "map_of sm ''_visualization'' = Some ns \<Longrightarrow> import_visualization F sm w = (Inr ns, sm, w)"
  by (simp add: import_visualization_def)

lemma from_import_cached:
  assumes "from_import F m n st = (r, st')" and "map_of (sys_modules st) m = Some V"
  shows "sys_modules st' = sys_modules st \<and> world st' = world st"
proof -
  from assms(2) have "import_module F m st = (Inr V, st)"
    by (simp add: import_module_def)
  with assms(1) show ?thesis
    by (auto simp: from_import_def split: option.splits)
qed

lemma exec_stmts_cached:
  assumes "exec_stmts F ss st = (r, st')"
    and "\<forall>s \<in> set ss. map_of (sys_modules st) (module s) \<noteq> None"
  shows "sys_modules st' = sys_modules st \<and> world st' = world st"
  using assms
proof (induction ss arbitrary: st)
  case Nil
  then show ?case by simp
next
  case (Cons a ss)
  obtain r1 st1 where h: "from_import F (module a) (imported a) st = (r1, st1)"
    by (cases "from_import F (module a) (imported a) st")
  from Cons.prems(2) obtain V where "map_of (sys_modules st) (module a) = Some V"
    by auto
  with h have same: "sys_modules st1 = sys_modules st \<and> world st1 = world st"
    by (rule from_import_cached)
  show ?case
  proof (cases r1)
    case (Some e)
    with Cons.prems(1) h have "st' = st1" by simp
    with same show ?thesis by simp
  next
    case None
    with Cons.prems(1) h have rest: "exec_stmts F ss st1 = (r, st')" by simp
    from Cons.prems(2) same
    have "\<forall>s \<in> set ss. map_of (sys_modules st1) (module s) \<noteq> None" by simp
    from Cons.IH [OF rest this] same show ?thesis by simp
  qed
qed


lemma subset_chain: "A \<subseteq> B \<union> C \<Longrightarrow> D \<subseteq> A \<Longrightarrow> E \<subseteq> D \<union> F \<Longrightarrow> E \<subseteq> B \<union> C \<union> F"
  by blast

lemma resolve_SomeD:
  "resolve sm s = Some obj \<Longrightarrow>
   \<exists>V. map_of sm (module s) = Some V \<and> map_of V (imported s) = Some obj"
  by (auto simp: resolve_def split: option.splits)

lemma resolve_cong:
  "map_of sm1 (module s) = map_of sm2 (module s) \<Longrightarrow> resolve sm1 s = resolve sm2 s"
  by (simp add: resolve_def)

lemma demo_exec_two:
  "exec_stmts (demo_finder demo_sources_no_hist) (take 2 visualization_body)
     \<lparr>sys_modules = [], globals = [], world = []\<rparr> = (None, demo_state_after_visutils)"
  by (simp add: visualization_body_def from_import_def import_module_def demo_finder_def
      demo_sources_no_hist_def demo_sources_def demo_state_after_visutils_def)

lemma demo_third_fails:
  "from_import (demo_finder demo_sources_no_hist) (module (visualization_body ! 2))
     (imported (visualization_body ! 2)) demo_state_after_visutils =
   (Some (ModuleNotFoundError ''_HistPlot''), demo_state_after_visutils)"
  by (simp add: visualization_body_def from_import_def import_module_def demo_finder_def
      demo_sources_no_hist_def demo_sources_def demo_state_after_visutils_def)

lemma demo_load_preloaded:
  "load_visualization (demo_finder demo_sources) demo_preloaded [''boot''] =
   (Inr demo_namespace, demo_sources @ [(''_visualization'', demo_namespace)],
    ''boot'' # tl demo_log)"
  by (simp add: load_visualization_def visualization_body_def from_import_def import_module_def
      demo_finder_def demo_sources_def demo_namespace_def demo_log_def demo_preloaded_def)

section \<open>The claims of the specification\<close>

text \<open>
  C1. A loaded facade exposes exactly the nine names ParaMonteFigure, Target, HistPlot,
  GridPlot, LinePlot, ScatterPlot, HeatMapPlot, DensityMapPlot and ScatterLinePlot, and no
  others: the number of names bound is nine. The count of eight names that the
  specification gives does not equal the number of names the module binds, as the
  counterexample shows on the sample installation.
\<close>


theorem facade_exposes_nine_names:
  assumes "load_visualization F sm w = (Inr ns, sm', w')"
  shows "fst ` set ns =
      {''ParaMonteFigure'', ''Target'', ''HistPlot'', ''GridPlot'', ''LinePlot'',
       ''ScatterPlot'', ''HeatMapPlot'', ''DensityMapPlot'', ''ScatterLinePlot''} \<and>
    length ns = 9 \<and> card (fst ` set ns) = 9"
proof -
  have names: "map fst ns =
      [''ParaMonteFigure'', ''Target'', ''HistPlot'', ''GridPlot'', ''LinePlot'',
       ''ScatterPlot'', ''HeatMapPlot'', ''DensityMapPlot'', ''ScatterLinePlot'']"
    using load_names [OF assms] by (simp only: body_names)
  have "fst ` set ns = set (map fst ns)" by simp
  also have "\<dots> = {''ParaMonteFigure'', ''Target'', ''HistPlot'', ''GridPlot'', ''LinePlot'',
       ''ScatterPlot'', ''HeatMapPlot'', ''DensityMapPlot'', ''ScatterLinePlot''}"
    by (simp only: names) simp
  finally have s: "fst ` set ns =
      {''ParaMonteFigure'', ''Target'', ''HistPlot'', ''GridPlot'', ''LinePlot'',
       ''ScatterPlot'', ''HeatMapPlot'', ''DensityMapPlot'', ''ScatterLinePlot''}" .
  have "length (map fst ns) = 9" by (simp only: names) simp
  then have l: "length ns = 9" by simp
  have "distinct (map fst ns)" by (simp only: names) simp
  then have "card (set (map fst ns)) = length (map fst ns)" by (rule distinct_card)
  with l have c: "card (fst ` set ns) = 9" by simp
  from s l c show ?thesis by blast
qed

theorem facade_exposes_nine_names_witness:
  "load_visualization (demo_finder demo_sources) [] [] =
     (Inr demo_namespace, demo_sources @ [(''_visualization'', demo_namespace)], demo_log) \<and>
   fst ` set demo_namespace =
      {''ParaMonteFigure'', ''Target'', ''HistPlot'', ''GridPlot'', ''LinePlot'',
       ''ScatterPlot'', ''HeatMapPlot'', ''DensityMapPlot'', ''ScatterLinePlot''} \<and>
   length demo_namespace = 9 \<and> card (fst ` set demo_namespace) = 9"
  using demo_load facade_exposes_nine_names [OF demo_load] by blast

theorem facade_eight_names_counterexample:
  "fst (load_visualization (demo_finder demo_sources) [] []) = Inr demo_namespace \<and>
   length demo_namespace = 9 \<and> length demo_namespace \<noteq> 8"
  by (simp add: demo_load) (simp add: demo_namespace_def)



text \<open>
  C3. Loading is all or nothing. When the facade is not loaded yet and one of the eight
  collaborator modules is missing (not in the module table and not to be located), the
  import of the facade raises: the importer receives an exception and no namespace, and
  no module named \<^verbatim>\<open>_visualization\<close> is left in the module table, however many
  imports had succeeded before. So nothing partial is kept: importing the facade again
  in the state the failure left runs the body anew and raises again.
\<close>

theorem facade_all_or_nothing:
  assumes "m \<in> {''_visutils'', ''_HistPlot'', ''_GridPlot'', ''_LinePlot'', ''_ScatterPlot'',
      ''_HeatMapPlot'', ''_DensityMapPlot'', ''_ScatterLinePlot''}"
    and "F m = None" and "map_of sm m = None"
    and "map_of sm ''_visualization'' = None"
  shows "\<exists>e sm' w'. import_visualization F sm w = (Inl e, sm', w') \<and>
    map_of sm' ''_visualization'' = None \<and>
    (\<exists>e2 sm2 w2. import_visualization F sm' w' = (Inl e2, sm2, w2))"
proof -
  from assms(1) have "m \<in> module ` set visualization_body" by (simp only: body_modules)
  then obtain s where s: "s \<in> set visualization_body" and m: "m = module s" ..
  from assms(2) m have Fm: "F (module s) = None" by simp
  from assms(3) m have sm: "map_of sm (module s) = None" by simp
  from load_missing_fails [where F = F and s = s and w = w, OF s Fm sm] obtain e sm' w' where
    l1: "load_visualization F sm w = (Inl e, sm', w')"
    and f1: "map_of sm' ''_visualization'' = None"
    and m1: "map_of sm' (module s) = None"
    by auto
  from load_missing_fails [where F = F and s = s and w = w', OF s Fm m1] obtain e2 sm2 w2 where
    l2: "load_visualization F sm' w' = (Inl e2, sm2, w2)"
    by auto
  from l1 have i1: "import_visualization F sm w = (Inl e, sm', w')"
    by (simp only: import_visualization_load [OF assms(4)])
  from l2 have i2: "import_visualization F sm' w' = (Inl e2, sm2, w2)"
    by (simp only: import_visualization_load [OF f1])
  show ?thesis by (intro exI conjI) (rule i1, rule f1, rule i2)
qed

theorem facade_all_or_nothing_witness:
  "demo_finder demo_sources_no_hist ''_HistPlot'' = None \<and>
   map_of ([] :: modules) ''_HistPlot'' = None \<and>
   map_of ([] :: modules) ''_visualization'' = None \<and>
   (\<exists>e sm' w'. import_visualization (demo_finder demo_sources_no_hist) [] [] = (Inl e, sm', w') \<and>
      map_of sm' ''_visualization'' = None \<and>
      (\<exists>e2 sm2 w2. import_visualization (demo_finder demo_sources_no_hist) sm' w' =
         (Inl e2, sm2, w2)))"
proof -
  have a: "demo_finder demo_sources_no_hist ''_HistPlot'' = None"
    by (simp add: demo_finder_def demo_sources_no_hist_def demo_sources_def)
  have b: "map_of ([] :: modules) ''_HistPlot'' = None" by simp
  have d: "map_of ([] :: modules) ''_visualization'' = None" by simp
  have c: "''_HistPlot'' \<in> {''_visutils'', ''_HistPlot'', ''_GridPlot'', ''_LinePlot'',
      ''_ScatterPlot'', ''_HeatMapPlot'', ''_DensityMapPlot'', ''_ScatterLinePlot''}"
    by simp
  note t = facade_all_or_nothing
    [of "''_HistPlot''" "demo_finder demo_sources_no_hist" "[]" "[]", OF c a b d]
  show ?thesis by (rule conjI [OF a conjI [OF b conjI [OF d t]]])
qed

text \<open>
  C4. The load fails with exception \<open>e\<close> exactly when some statement of the body,
  reached after all statements before it have succeeded, finds its collaborator
  unavailable with \<open>e\<close>: every such exception reaches the importer as the very same
  value, neither caught nor translated, and nothing else makes the load fail.
\<close>

theorem facade_failure_propagated:
  "fst (load_visualization F sm w) = Inl e \<longleftrightarrow>
   (\<exists>pre s post st1. visualization_body = pre @ s # post \<and>
      exec_stmts F pre \<lparr>sys_modules = sm, globals = [], world = w\<rparr> = (None, st1) \<and>
      collaborator_error F st1 s = Some e)"
proof
  assume "fst (load_visualization F sm w) = Inl e"
  then obtain st where
    "exec_stmts F visualization_body \<lparr>sys_modules = sm, globals = [], world = w\<rparr> = (Some e, st)"
    by (auto simp: load_visualization_def split: prod.splits option.splits)
  from exec_stmts_failure [OF this] obtain pre s post st1 where
    d: "visualization_body = pre @ s # post"
      "exec_stmts F pre \<lparr>sys_modules = sm, globals = [], world = w\<rparr> = (None, st1)"
      "from_import F (module s) (imported s) st1 = (Some e, st)"
    by blast
  from d(3) from_import_error [of F "module s" "imported s" st1]
  have "collaborator_error F st1 s = Some e" by simp
  with d(1,2) show "\<exists>pre s post st1. visualization_body = pre @ s # post \<and>
      exec_stmts F pre \<lparr>sys_modules = sm, globals = [], world = w\<rparr> = (None, st1) \<and>
      collaborator_error F st1 s = Some e"
    by blast
next
  assume "\<exists>pre s post st1. visualization_body = pre @ s # post \<and>
      exec_stmts F pre \<lparr>sys_modules = sm, globals = [], world = w\<rparr> = (None, st1) \<and>
      collaborator_error F st1 s = Some e"
  then obtain pre s post st1 where
    d: "visualization_body = pre @ s # post"
      "exec_stmts F pre \<lparr>sys_modules = sm, globals = [], world = w\<rparr> = (None, st1)"
      "collaborator_error F st1 s = Some e"
    by blast
  obtain r st2 where h: "from_import F (module s) (imported s) st1 = (r, st2)"
    by (cases "from_import F (module s) (imported s) st1")
  with d(3) from_import_error [of F "module s" "imported s" st1] have "r = Some e" by simp
  with h have "from_import F (module s) (imported s) st1 = (Some e, st2)" by simp
  with d(2) have "exec_stmts F (pre @ s # post) \<lparr>sys_modules = sm, globals = [], world = w\<rparr> =
      (Some e, st2)"
    by (rule exec_stmts_stops)
  with d(1) show "fst (load_visualization F sm w) = Inl e"
    by (simp add: load_visualization_def)
qed

theorem facade_failure_propagated_witness:
  "fst (load_visualization (demo_finder demo_sources_no_hist) [] []) =
     Inl (ModuleNotFoundError ''_HistPlot'') \<and>
   (\<exists>pre s post st1. visualization_body = pre @ s # post \<and>
      exec_stmts (demo_finder demo_sources_no_hist) pre
        \<lparr>sys_modules = [], globals = [], world = []\<rparr> = (None, st1) \<and>
      collaborator_error (demo_finder demo_sources_no_hist) st1 s =
        Some (ModuleNotFoundError ''_HistPlot''))"
proof -
  have f: "fst (load_visualization (demo_finder demo_sources_no_hist) [] []) =
      Inl (ModuleNotFoundError ''_HistPlot'')"
    by (simp add: demo_load_no_hist)
  from f facade_failure_propagated
    [of "demo_finder demo_sources_no_hist" "[]" "[]" "ModuleNotFoundError ''_HistPlot''"]
  show ?thesis by blast
qed

text \<open>
  C5. A load of the facade has no effect of its own beyond its namespace. Every change of
  the world is one that the body of a collaborator module makes while it is loaded: any
  reflexive and transitive relation that each collaborator body respects holds between
  the world before and after the load (with equality: collaborators without effects leave
  the world as it was). In the module table, the modules already there keep their
  namespaces, and the only modules added are collaborators and the facade itself. When
  every collaborator module is loaded already, no collaborator body runs and the load
  leaves the world exactly as it was.
\<close>

theorem facade_frame:
  assumes "load_visualization F sm w = (r, sm', w')"
    and "reflp R" and "transp R"
    and "\<forall>s \<in> set visualization_body. \<forall>b v. F (module s) = Some b \<longrightarrow> R v (snd (b v))"
  shows "R w w' \<and>
    (\<forall>k x. k \<noteq> ''_visualization'' \<longrightarrow> map_of sm k = Some x \<longrightarrow> map_of sm' k = Some x) \<and>
    fst ` set sm' \<subseteq> fst ` set sm \<union> module ` set visualization_body \<union> {''_visualization''} \<and>
    ((\<forall>s \<in> set visualization_body. map_of sm (module s) \<noteq> None) \<longrightarrow> w' = w)"
proof -
  obtain r0 st where
    ex: "exec_stmts F visualization_body \<lparr>sys_modules = sm, globals = [], world = w\<rparr> = (r0, st)"
    by (cases "exec_stmts F visualization_body \<lparr>sys_modules = sm, globals = [], world = w\<rparr>")
  have "R (world \<lparr>sys_modules = sm, globals = [], world = w\<rparr>) (world st)"
    using ex assms(2,3)
  proof (rule exec_stmts_world)
    fix s b v assume "s \<in> set visualization_body" "F (module s) = Some b"
    with assms(4) show "R v (snd (b v))" by blast
  qed
  moreover from assms(1) ex have "w' = world st"
    by (cases r0) (auto simp: load_visualization_def)
  ultimately have 1: "R w w'" by simp
  from load_keeps [OF assms(1)]
  have 2: "\<forall>k x. k \<noteq> ''_visualization'' \<longrightarrow> map_of sm k = Some x \<longrightarrow> map_of sm' k = Some x"
    by blast
  from exec_stmts_keys [OF ex]
  have "fst ` set (sys_modules st) \<subseteq> fst ` set sm \<union> module ` set visualization_body"
    by simp
  moreover have "fst ` set (AList.delete ''_visualization'' (sys_modules st)) \<subseteq>
      fst ` set (sys_modules st)"
    by (auto simp: AList.delete_eq)
  moreover from assms(1) ex
  have "fst ` set sm' \<subseteq> fst ` set (AList.delete ''_visualization'' (sys_modules st)) \<union>
      {''_visualization''}"
    by (cases r0) (auto simp: load_visualization_def)
  ultimately have 3: "fst ` set sm' \<subseteq>
      fst ` set sm \<union> module ` set visualization_body \<union> {''_visualization''}"
    by (rule subset_chain)
  have 4: "(\<forall>s \<in> set visualization_body. map_of sm (module s) \<noteq> None) \<longrightarrow> w' = w"
  proof
    assume "\<forall>s \<in> set visualization_body. map_of sm (module s) \<noteq> None"
    then have "\<forall>s \<in> set visualization_body.
        map_of (sys_modules \<lparr>sys_modules = sm, globals = [], world = w\<rparr>) (module s) \<noteq> None"
      by simp
    with ex have "world st = world \<lparr>sys_modules = sm, globals = [], world = w\<rparr>"
      by (rule exec_stmts_cached [THEN conjunct2])
    with \<open>w' = world st\<close> show "w' = w" by simp
  qed
  show ?thesis by (rule conjI [OF 1 conjI [OF 2 conjI [OF 3 4]]])
qed

theorem facade_frame_witness:
  "load_visualization (demo_finder demo_sources) [] [] =
     (Inr demo_namespace, demo_sources @ [(''_visualization'', demo_namespace)], demo_log) \<and>
   reflp (\<lambda>a b :: name list. \<exists>zs. b = a @ zs) \<and>
   transp (\<lambda>a b :: name list. \<exists>zs. b = a @ zs) \<and>
   (\<exists>zs. demo_log = [] @ zs) \<and>
   fst ` set (demo_sources @ [(''_visualization'', demo_namespace)]) \<subseteq>
     fst ` set ([] :: modules) \<union> module ` set visualization_body \<union> {''_visualization''}"
proof -
  let ?R = "\<lambda>a b :: name list. \<exists>zs. b = a @ zs"
  have r: "reflp ?R" by (simp add: reflp_def)
  have t: "transp ?R" by (auto simp: transp_def)
  have c: "\<forall>s \<in> set visualization_body. \<forall>b v.
      demo_finder demo_sources (module s) = Some b \<longrightarrow> ?R v (snd (b v))"
    by (auto simp: demo_finder_def split: option.splits)
  note f = facade_frame [of "demo_finder demo_sources" "[]" "[]" _ _ _ ?R, OF demo_load r t c]
  from f have a: "\<exists>zs. demo_log = [] @ zs" by (rule conjunct1)
  from f have b: "fst ` set (demo_sources @ [(''_visualization'', demo_namespace)]) \<subseteq>
      fst ` set ([] :: modules) \<union> module ` set visualization_body \<union> {''_visualization''}"
    by (rule conjunct2 [THEN conjunct2, THEN conjunct1])
  show ?thesis by (rule conjI [OF demo_load conjI [OF r conjI [OF t conjI [OF a b]]]])
qed

text \<open>
  C6. Each of the seven plot constructors is imported by exactly one statement of the
  body, from a module of its own, named after it; that statement is the only one that
  imports from this module, and names the constructor explicitly. After a load, the
  constructor's binding is what its own module provides, and the facade's namespace has
  no name that the body does not import by name.
\<close>

theorem plot_constructors_own_modules:
  assumes "load_visualization F sm w = (Inr ns, sm', w')"
    and "n \<in> {''HistPlot'', ''GridPlot'', ''LinePlot'', ''ScatterPlot'', ''HeatMapPlot'',
      ''DensityMapPlot'', ''ScatterLinePlot''}"
  shows "filter (\<lambda>s. imported s = n) visualization_body = [FromImport (''_'' @ n) n] \<and>
    filter (\<lambda>s. module s = ''_'' @ n) visualization_body = [FromImport (''_'' @ n) n] \<and>
    map_of ns n = resolve sm' (FromImport (''_'' @ n) n) \<and>
    (\<forall>x. x \<notin> imported ` set visualization_body \<longrightarrow> map_of ns x = None)"
proof -
  from assms(2) have cases: "n = ''HistPlot'' \<or> n = ''GridPlot'' \<or> n = ''LinePlot'' \<or>
      n = ''ScatterPlot'' \<or> n = ''HeatMapPlot'' \<or> n = ''DensityMapPlot'' \<or>
      n = ''ScatterLinePlot''"
    by simp
  from cases
  have 1: "filter (\<lambda>s. imported s = n) visualization_body = [FromImport (''_'' @ n) n]"
    by (elim disjE) (simp_all add: visualization_body_def)
  from cases
  have 2: "filter (\<lambda>s. module s = ''_'' @ n) visualization_body = [FromImport (''_'' @ n) n]"
    by (elim disjE) (simp_all add: visualization_body_def)
  from cases have "FromImport (''_'' @ n) n \<in> set visualization_body"
    by (elim disjE) (simp_all add: visualization_body_def)
  then have "map_of ns (imported (FromImport (''_'' @ n) n)) =
      resolve sm' (FromImport (''_'' @ n) n)"
    by (rule load_binding [OF assms(1)])
  then have 3: "map_of ns n = resolve sm' (FromImport (''_'' @ n) n)"
    by (simp only: stmt.sel)
  have "set (map fst ns) = set (map imported visualization_body)"
    by (simp only: load_names [OF assms(1)])
  then have names: "fst ` set ns = imported ` set visualization_body"
    by (simp only: set_map)
  have 4: "\<forall>x. x \<notin> imported ` set visualization_body \<longrightarrow> map_of ns x = None"
  proof (intro allI impI)
    fix x assume "x \<notin> imported ` set visualization_body"
    with names have "x \<notin> fst ` set ns" by simp
    then show "map_of ns x = None" by (simp add: map_of_eq_None_iff)
  qed
  show ?thesis by (rule conjI [OF 1 conjI [OF 2 conjI [OF 3 4]]])
qed

theorem plot_constructors_own_modules_witness:
  "load_visualization (demo_finder demo_sources) [] [] =
     (Inr demo_namespace, demo_sources @ [(''_visualization'', demo_namespace)], demo_log) \<and>
   filter (\<lambda>s. imported s = ''HistPlot'') visualization_body =
     [FromImport ''_HistPlot'' ''HistPlot''] \<and>
   filter (\<lambda>s. module s = ''_HistPlot'') visualization_body =
     [FromImport ''_HistPlot'' ''HistPlot''] \<and>
   map_of demo_namespace ''HistPlot'' =
     resolve (demo_sources @ [(''_visualization'', demo_namespace)])
       (FromImport ''_HistPlot'' ''HistPlot'') \<and>
   map_of demo_namespace ''np'' = None"
proof -
  have n: "''HistPlot'' \<in> {''HistPlot'', ''GridPlot'', ''LinePlot'', ''ScatterPlot'',
      ''HeatMapPlot'', ''DensityMapPlot'', ''ScatterLinePlot''}"
    by simp
  have x: "''np'' \<notin> imported ` set visualization_body"
    by (simp add: visualization_body_def)
  have e: "''_'' @ ''HistPlot'' = ''_HistPlot''" by simp
  note f = plot_constructors_own_modules [OF demo_load n, unfolded e]
  note a = f [THEN conjunct1]
  note b = f [THEN conjunct2, THEN conjunct1]
  note c = f [THEN conjunct2, THEN conjunct2, THEN conjunct1]
  note d = f [THEN conjunct2, THEN conjunct2, THEN conjunct2, rule_format, OF x]
  show ?thesis by (rule conjI [OF demo_load conjI [OF a conjI [OF b conjI [OF c d]]]])
qed

text \<open>
  C7. Exactly two statements of the body import from \<^verbatim>\<open>_visutils\<close>, and they import
  ParaMonteFigure and Target; so no plot constructor is imported from that module. After
  a load, both names are bound to the attributes of one and the same module object, the
  entry of \<^verbatim>\<open>_visutils\<close> in the module table.
\<close>

theorem figure_and_target_from_visutils:
  assumes "load_visualization F sm w = (Inr ns, sm', w')"
  shows "(\<exists>V fig tgt. map_of sm' ''_visutils'' = Some V \<and>
      map_of V ''ParaMonteFigure'' = Some fig \<and> map_of V ''Target'' = Some tgt \<and>
      map_of ns ''ParaMonteFigure'' = Some fig \<and> map_of ns ''Target'' = Some tgt) \<and>
    filter (\<lambda>s. module s = ''_visutils'') visualization_body =
      [FromImport ''_visutils'' ''ParaMonteFigure'', FromImport ''_visutils'' ''Target'']"
proof -
  let ?fig = "FromImport ''_visutils'' ''ParaMonteFigure''"
  let ?tgt = "FromImport ''_visutils'' ''Target''"
  have in1: "?fig \<in> set visualization_body" by (simp add: visualization_body_def)
  have in2: "?tgt \<in> set visualization_body" by (simp add: visualization_body_def)
  from load_resolved [OF assms in1] obtain fig where r1: "resolve sm' ?fig = Some fig" ..
  from load_resolved [OF assms in2] obtain tgt where r2: "resolve sm' ?tgt = Some tgt" ..
  from resolve_SomeD [OF r1] obtain V where
    V: "map_of sm' (module ?fig) = Some V" and f: "map_of V (imported ?fig) = Some fig"
    by blast
  from resolve_SomeD [OF r2] obtain V' where
    V': "map_of sm' (module ?tgt) = Some V'" and t: "map_of V' (imported ?tgt) = Some tgt"
    by blast
  from V have V1: "map_of sm' ''_visutils'' = Some V" by (simp only: stmt.sel)
  from V' have "map_of sm' ''_visutils'' = Some V'" by (simp only: stmt.sel)
  with V1 have "V' = V" by simp
  with t have t1: "map_of V ''Target'' = Some tgt" by (simp only: stmt.sel)
  from f have f1: "map_of V ''ParaMonteFigure'' = Some fig" by (simp only: stmt.sel)
  from load_binding [OF assms in1] r1 have b1: "map_of ns ''ParaMonteFigure'' = Some fig"
    by (simp only: stmt.sel)
  from load_binding [OF assms in2] r2 have b2: "map_of ns ''Target'' = Some tgt"
    by (simp only: stmt.sel)
  from V1 f1 t1 b1 b2 have a: "\<exists>V fig tgt. map_of sm' ''_visutils'' = Some V \<and>
      map_of V ''ParaMonteFigure'' = Some fig \<and> map_of V ''Target'' = Some tgt \<and>
      map_of ns ''ParaMonteFigure'' = Some fig \<and> map_of ns ''Target'' = Some tgt"
    by (intro exI conjI)
  have b: "filter (\<lambda>s. module s = ''_visutils'') visualization_body = [?fig, ?tgt]"
    by (simp add: visualization_body_def)
  show ?thesis by (rule conjI [OF a b])
qed

theorem figure_and_target_from_visutils_witness:
  "load_visualization (demo_finder demo_sources) [] [] =
     (Inr demo_namespace, demo_sources @ [(''_visualization'', demo_namespace)], demo_log) \<and>
   (\<exists>V fig tgt. map_of (demo_sources @ [(''_visualization'', demo_namespace)]) ''_visutils'' =
      Some V \<and>
      map_of V ''ParaMonteFigure'' = Some fig \<and> map_of V ''Target'' = Some tgt \<and>
      map_of demo_namespace ''ParaMonteFigure'' = Some fig \<and>
      map_of demo_namespace ''Target'' = Some tgt)"
  by (rule conjI [OF demo_load figure_and_target_from_visutils [OF demo_load, THEN conjunct1]])

text \<open>
  C8. The body's statements run in textual order, and the run ends at the first one that
  raises. When the first \<open>k\<close> statements succeed and statement \<open>k\<close> raises \<open>e\<close>, the load
  fails with \<open>e\<close> in the state that statement left; running the whole body is the same as
  running its first \<open>k + 1\<close> statements, and the module table holds no module beyond the
  initial ones and those that these statements name: no later import is attempted.
\<close>

theorem imports_stop_at_first_failure:
  assumes "k < length visualization_body"
    and "exec_stmts F (take k visualization_body)
      \<lparr>sys_modules = sm, globals = [], world = w\<rparr> = (None, st1)"
    and "from_import F (module (visualization_body ! k)) (imported (visualization_body ! k)) st1 =
      (Some e, st2)"
  shows "load_visualization F sm w =
      (Inl e, AList.delete ''_visualization'' (sys_modules st2), world st2) \<and>
    exec_stmts F visualization_body \<lparr>sys_modules = sm, globals = [], world = w\<rparr> =
      exec_stmts F (take (Suc k) visualization_body)
        \<lparr>sys_modules = sm, globals = [], world = w\<rparr> \<and>
    fst ` set (sys_modules st2) \<subseteq>
      fst ` set sm \<union> module ` set (take (Suc k) visualization_body) \<and>
    map imported visualization_body =
      [''ParaMonteFigure'', ''Target'', ''HistPlot'', ''GridPlot'', ''LinePlot'',
       ''ScatterPlot'', ''HeatMapPlot'', ''DensityMapPlot'', ''ScatterLinePlot'']"
proof -
  let ?st0 = "\<lparr>sys_modules = sm, globals = [], world = w\<rparr>"
  let ?s = "visualization_body ! k"
  from assms(1) have split: "visualization_body =
      take k visualization_body @ ?s # drop (Suc k) visualization_body"
    by (rule id_take_nth_drop)
  from assms(1) have pre: "take (Suc k) visualization_body = take k visualization_body @ [?s]"
    by (rule take_Suc_conv_app_nth)
  have whole: "exec_stmts F (take k visualization_body @ ?s # drop (Suc k) visualization_body)
      ?st0 = (Some e, st2)"
    using assms(2,3) by (rule exec_stmts_stops)
  then have full: "exec_stmts F visualization_body ?st0 = (Some e, st2)"
    using split by simp
  have part: "exec_stmts F (take (Suc k) visualization_body) ?st0 = (Some e, st2)"
    unfolding pre using assms(2,3) by (rule exec_stmts_stops)
  from full have 1: "load_visualization F sm w =
      (Inl e, AList.delete ''_visualization'' (sys_modules st2), world st2)"
    by (simp add: load_visualization_def)
  from full part have 2: "exec_stmts F visualization_body ?st0 =
      exec_stmts F (take (Suc k) visualization_body) ?st0"
    by simp
  from exec_stmts_keys [OF part] have 3: "fst ` set (sys_modules st2) \<subseteq>
      fst ` set sm \<union> module ` set (take (Suc k) visualization_body)"
    by simp
  show ?thesis by (rule conjI [OF 1 conjI [OF 2 conjI [OF 3 body_names]]])
qed

theorem imports_stop_at_first_failure_witness:
  "(2::nat) < length visualization_body \<and>
   exec_stmts (demo_finder demo_sources_no_hist) (take 2 visualization_body)
     \<lparr>sys_modules = [], globals = [], world = []\<rparr> = (None, demo_state_after_visutils) \<and>
   from_import (demo_finder demo_sources_no_hist) (module (visualization_body ! 2))
     (imported (visualization_body ! 2)) demo_state_after_visutils =
     (Some (ModuleNotFoundError ''_HistPlot''), demo_state_after_visutils) \<and>
   load_visualization (demo_finder demo_sources_no_hist) [] [] =
     (Inl (ModuleNotFoundError ''_HistPlot''),
      AList.delete ''_visualization'' (sys_modules demo_state_after_visutils),
      world demo_state_after_visutils)"
proof -
  have k: "(2::nat) < length visualization_body" by (simp add: visualization_body_def)
  note t = imports_stop_at_first_failure [OF k demo_exec_two demo_third_fails]
  show ?thesis by (rule conjI [OF k conjI [OF demo_exec_two conjI [OF demo_third_fails
    t [THEN conjunct1]]]])
qed

text \<open>
  C9. The nine names the body imports are pairwise distinct, one per statement. Whenever
  a statement of the body is reached, the name it imports is not bound yet in the
  facade's namespace: no statement shadows or rebinds a name of an earlier one.
\<close>

theorem names_bound_once:
  assumes "visualization_body = pre @ s # post"
    and "exec_stmts F pre \<lparr>sys_modules = sm, globals = [], world = w\<rparr> = (r, st1)"
  shows "map_of (globals st1) (imported s) = None \<and>
    distinct (map imported visualization_body) \<and> length visualization_body = 9"
proof -
  have "distinct (map imported (pre @ s # post))"
    using body_names_distinct by (simp only: assms(1))
  then have fresh: "imported s \<notin> imported ` set pre" by auto
  have "map_of (globals st1) (imported s) =
      map_of (globals \<lparr>sys_modules = sm, globals = [], world = w\<rparr>) (imported s)"
    using assms(2) fresh by (rule exec_stmts_other_names)
  then have 1: "map_of (globals st1) (imported s) = None" by simp
  have 3: "length visualization_body = 9" by (simp add: visualization_body_def)
  show ?thesis by (rule conjI [OF 1 conjI [OF body_names_distinct 3]])
qed

theorem names_bound_once_witness:
  "visualization_body = take 2 visualization_body @ FromImport ''_HistPlot'' ''HistPlot'' #
     drop 3 visualization_body \<and>
   exec_stmts (demo_finder demo_sources_no_hist) (take 2 visualization_body)
     \<lparr>sys_modules = [], globals = [], world = []\<rparr> = (None, demo_state_after_visutils) \<and>
   map_of (globals demo_state_after_visutils) (imported (FromImport ''_HistPlot'' ''HistPlot'')) =
     None"
proof -
  have sp: "visualization_body = take 2 visualization_body @
      FromImport ''_HistPlot'' ''HistPlot'' # drop 3 visualization_body"
    by (simp add: visualization_body_def)
  note t = names_bound_once [OF sp demo_exec_two]
  show ?thesis by (rule conjI [OF sp conjI [OF demo_exec_two t [THEN conjunct1]]])
qed

text \<open>
  C10. Loading is deterministic in the collaborators. Two successful loads, from whatever
  finders, module tables and worlds, that end with the same module objects for the eight
  collaborator modules expose the same namespace: the same nine names, in the same order,
  bound to the same objects.
\<close>

theorem load_deterministic:
  assumes "load_visualization F1 sm1 w1 = (Inr ns1, sm1', w1')"
    and "load_visualization F2 sm2 w2 = (Inr ns2, sm2', w2')"
    and "\<forall>s \<in> set visualization_body. map_of sm1' (module s) = map_of sm2' (module s)"
  shows "ns1 = ns2"
proof -
  have "map (\<lambda>s. (imported s, the (resolve sm1' s))) visualization_body =
      map (\<lambda>s. (imported s, the (resolve sm2' s))) visualization_body"
  proof (rule map_cong [OF refl])
    fix s assume "s \<in> set visualization_body"
    with assms(3) have "map_of sm1' (module s) = map_of sm2' (module s)" by (rule bspec)
    then have "resolve sm1' s = resolve sm2' s" by (rule resolve_cong)
    then show "(imported s, the (resolve sm1' s)) = (imported s, the (resolve sm2' s))"
      by simp
  qed
  with load_namespace [OF assms(1)] load_namespace [OF assms(2)] show ?thesis by simp
qed

theorem load_deterministic_witness:
  "load_visualization (demo_finder demo_sources) [] [] =
     (Inr demo_namespace, demo_sources @ [(''_visualization'', demo_namespace)], demo_log) \<and>
   load_visualization (demo_finder demo_sources) demo_preloaded [''boot''] =
     (Inr demo_namespace, demo_sources @ [(''_visualization'', demo_namespace)],
      ''boot'' # tl demo_log) \<and>
   fst (load_visualization (demo_finder demo_sources) [] []) =
     fst (load_visualization (demo_finder demo_sources) demo_preloaded [''boot''])"
proof -
  have same: "\<forall>s \<in> set visualization_body.
      map_of (demo_sources @ [(''_visualization'', demo_namespace)]) (module s) =
      map_of (demo_sources @ [(''_visualization'', demo_namespace)]) (module s)"
    by simp
  note t = load_deterministic [OF demo_load demo_load_preloaded same]
  have eq: "fst (load_visualization (demo_finder demo_sources) [] []) =
      fst (load_visualization (demo_finder demo_sources) demo_preloaded [''boot''])"
    using t by (simp only: demo_load demo_load_preloaded fst_conv)
  show ?thesis by (rule conjI [OF demo_load conjI [OF demo_load_preloaded eq]])
qed

end
